theory Spec2Isabelle
  imports Complex_Main
begin

section \<open>JavaScript numbers\<close>

text \<open>
  The library \<^verbatim>\<open>mouse.js\<close> is a JavaScript constructor \<^verbatim>\<open>Mouse(target)\<close> whose closures
  share one mutable object. The embedding passes that object around as a record, keeps the
  listener arrays in an explicit store (two names may denote the same array object while it
  is being traversed), and returns every exception as a value.

  A JavaScript number is an IEEE 754 double. \<open>Fin q\<close> is the finite double of value \<open>q\<close>;
  every operation rounds its exact result to the nearest double, ties to the even
  mantissa, and overflows to an infinity. The type also holds rationals that are no
  doubles; the operations round whatever they are given. The model has one zero, which
  stands for both zeros of IEEE 754. The program computes \<^verbatim>\<open>(v / d - 0.5) * 2\<close> and
  \<^verbatim>\<open>width / height\<close> only, with divisors that are integers of the platform
  (\<^verbatim>\<open>window.innerWidth\<close>, \<^verbatim>\<open>clientWidth\<close> and the like) and so never the negative zero; the
  sign of a zero \<open>v\<close>, or of a quotient that is zero, does not show in these results.
\<close>

datatype jsnum = Fin rat | PInf | NInf | NaN

definition pow2 :: "int \<Rightarrow> rat" where
  "pow2 e = (if 0 \<le> e then 2 ^ nat e else 1 / 2 ^ nat (- e))"

text \<open>The number of binary digits of \<open>n\<close>.\<close>

fun bit_length :: "nat \<Rightarrow> nat" where
  "bit_length n = (if n = 0 then 0 else Suc (bit_length (n div 2)))"

declare bit_length.simps [simp del]

text \<open>For \<open>0 < a\<close>, the integer \<open>k\<close> with \<open>2 ^ k \<le> a < 2 ^ (k + 1)\<close>.\<close>

definition ilog2 :: "rat \<Rightarrow> int" where
  "ilog2 a =
     (if 1 \<le> a then int (bit_length (nat \<lfloor>a\<rfloor>)) - 1
      else - int (bit_length
                   (nat (if of_int \<lfloor>1 / a\<rfloor> = 1 / a then \<lfloor>1 / a\<rfloor> - 1 else \<lfloor>1 / a\<rfloor>))))"

definition round_half_even :: "rat \<Rightarrow> int" where
  "round_half_even x =
     (if x - of_int \<lfloor>x\<rfloor> < 1 / 2 then \<lfloor>x\<rfloor>
      else if 1 / 2 < x - of_int \<lfloor>x\<rfloor> then \<lfloor>x\<rfloor> + 1
      else if even \<lfloor>x\<rfloor> then \<lfloor>x\<rfloor> else \<lfloor>x\<rfloor> + 1)"

text \<open>
  A double has a mantissa of 53 bits; the exponent of its last bit is at least -1074
  (below \<open>2 ^ -1022\<close> the doubles are equally spaced) and at most 971.
\<close>

definition double_exponent :: "rat \<Rightarrow> int" where
  "double_exponent a = max (ilog2 a - 52) (- 1074)"

definition double_mantissa :: "rat \<Rightarrow> int" where
  "double_mantissa a = round_half_even (a / pow2 (double_exponent a))"

definition round_double :: "rat \<Rightarrow> jsnum" where
  "round_double q =
     (if q = 0 then Fin 0
      else if 971 < double_exponent \<bar>q\<bar> \<or>
              (double_exponent \<bar>q\<bar> = 971 \<and> double_mantissa \<bar>q\<bar> = 9007199254740992)
      then (if 0 < q then PInf else NInf)
      else if 0 < q then Fin (of_int (double_mantissa \<bar>q\<bar>) * pow2 (double_exponent \<bar>q\<bar>))
      else Fin (- (of_int (double_mantissa \<bar>q\<bar>) * pow2 (double_exponent \<bar>q\<bar>))))"

fun js_div :: "jsnum \<Rightarrow> jsnum \<Rightarrow> jsnum" where
  "js_div (Fin a) (Fin b) =
     (if b = 0 then (if a = 0 then NaN else if 0 < a then PInf else NInf)
      else round_double (a / b))"
| "js_div (Fin a) PInf = Fin 0"
| "js_div (Fin a) NInf = Fin 0"
| "js_div PInf (Fin b) = (if 0 \<le> b then PInf else NInf)"
| "js_div NInf (Fin b) = (if 0 \<le> b then NInf else PInf)"
| "js_div PInf PInf = NaN"
| "js_div PInf NInf = NaN"
| "js_div NInf PInf = NaN"
| "js_div NInf NInf = NaN"
| "js_div NaN b = NaN"
| "js_div a NaN = NaN"

fun js_sub :: "jsnum \<Rightarrow> jsnum \<Rightarrow> jsnum" where
  "js_sub (Fin a) (Fin b) = round_double (a - b)"
| "js_sub (Fin a) PInf = NInf"
| "js_sub (Fin a) NInf = PInf"
| "js_sub PInf (Fin b) = PInf"
| "js_sub PInf NInf = PInf"
| "js_sub PInf PInf = NaN"
| "js_sub NInf (Fin b) = NInf"
| "js_sub NInf PInf = NInf"
| "js_sub NInf NInf = NaN"
| "js_sub NaN b = NaN"
| "js_sub a NaN = NaN"

fun js_mul :: "jsnum \<Rightarrow> jsnum \<Rightarrow> jsnum" where
  "js_mul (Fin a) (Fin b) = round_double (a * b)"
| "js_mul (Fin a) PInf = (if a = 0 then NaN else if 0 < a then PInf else NInf)"
| "js_mul (Fin a) NInf = (if a = 0 then NaN else if 0 < a then NInf else PInf)"
| "js_mul PInf (Fin b) = (if b = 0 then NaN else if 0 < b then PInf else NInf)"
| "js_mul NInf (Fin b) = (if b = 0 then NaN else if 0 < b then NInf else PInf)"
| "js_mul PInf PInf = PInf"
| "js_mul PInf NInf = NInf"
| "js_mul NInf PInf = NInf"
| "js_mul NInf NInf = PInf"
| "js_mul NaN b = NaN"
| "js_mul a NaN = NaN"

section \<open>JavaScript values\<close>

text \<open>
  The payload of a platform mouse notification (a DOM \<^verbatim>\<open>MouseEvent\<close>): the identity of the
  object and the fields the handlers read. \<^verbatim>\<open>button\<close> is a WebIDL \<^verbatim>\<open>short\<close>, an integer.
\<close>

record mouse_event =
  event_id :: nat
  button :: int
  pageX :: jsnum
  pageY :: jsnum
  movementX :: jsnum
  movementY :: jsnum
  clientX :: jsnum
  clientY :: jsnum

text \<open>
  Two objects of the host are reachable through the prototype of an object literal:
  the \<^verbatim>\<open>Object\<close> constructor (property \<^verbatim>\<open>constructor\<close>) and \<^verbatim>\<open>Object.prototype\<close> itself
  (property \<^verbatim>\<open>__proto__\<close>); the others are the methods of \<^verbatim>\<open>Object.prototype\<close>.
\<close>

datatype builtin = ObjectConstructor | ObjectPrototype | ObjectMethod string

text \<open>
  An exception is a \<^verbatim>\<open>TypeError\<close> of the host or a value that application code throws,
  known by its identity.
\<close>

datatype error = TypeError | Thrown nat

text \<open>
  The values that flow through the public operations: primitives, callbacks (a function is
  known by its identity), host objects, DOM elements (by identity), notification payloads,
  \<^verbatim>\<open>String\<close> objects (\<^verbatim>\<open>new String(s)\<close>, by identity and content) and objects of the
  application. Of the methods an application object may carry the program calls one,
  \<^verbatim>\<open>toLowerCase\<close>: \<open>Obj i None\<close> is an object without it, \<open>Obj i (Some r)\<close> an object whose
  \<^verbatim>\<open>toLowerCase\<close> returns \<open>r\<close> or throws. The prototypes of the host are as the standard
  defines them: no other value has a \<^verbatim>\<open>toLowerCase\<close>.
\<close>

datatype jsval =
    Undefined
  | Null
  | Bool bool
  | Num jsnum
  | Str string
  | Fn nat
  | Builtin builtin
  | Elem nat
  | Ev mouse_event
  | StrObj nat string
  | Obj nat "(error + jsval) option"

text \<open>\<^verbatim>\<open>a === b\<close>: identity on these values, except that NaN differs from itself.\<close>

definition strict_eq :: "jsval \<Rightarrow> jsval \<Rightarrow> bool" where
  "strict_eq a b = (a = b \<and> a \<noteq> Num NaN)"

definition num_of_int :: "int \<Rightarrow> jsval" where
  "num_of_int i = Num (Fin (of_int i))"

subsection \<open>Strings\<close>

text \<open>\<^verbatim>\<open>String.prototype.toLowerCase\<close> on the ASCII letters; other characters are kept.\<close>

definition lower_char :: "char \<Rightarrow> char" where
  "lower_char c =
     (case map_of (zip ''ABCDEFGHIJKLMNOPQRSTUVWXYZ'' ''abcdefghijklmnopqrstuvwxyz'') c of
        Some d \<Rightarrow> d
      | None \<Rightarrow> c)"

definition lower_string :: "string \<Rightarrow> string" where
  "lower_string s = map lower_char s"

text \<open>
  The method call \<^verbatim>\<open>v.toLowerCase()\<close>. A primitive string and a \<^verbatim>\<open>String\<close> object have the
  string method; an application object that carries the method runs it. On \<^verbatim>\<open>undefined\<close> and
  \<^verbatim>\<open>null\<close> the property read throws; on every other value the property is \<^verbatim>\<open>undefined\<close> and
  the call throws.
\<close>

fun toLowerCase :: "jsval \<Rightarrow> error + jsval" where
  "toLowerCase (Str s) = Inr (Str (lower_string s))"
| "toLowerCase (StrObj i s) = Inr (Str (lower_string s))"
| "toLowerCase (Obj i (Some r)) = r"
| "toLowerCase _ = Inl TypeError"

subsection \<open>Property lookup on an object literal\<close>

text \<open>
  The property names every object literal inherits from \<^verbatim>\<open>Object.prototype\<close>: the standard
  methods, the legacy accessors of browsers, \<^verbatim>\<open>constructor\<close> and \<^verbatim>\<open>__proto__\<close>.
\<close>

definition object_prototype_methods :: "string list" where
  "object_prototype_methods =
     [''hasOwnProperty'', ''isPrototypeOf'', ''propertyIsEnumerable'', ''toLocaleString'',
      ''toString'', ''valueOf'', ''__defineGetter__'', ''__defineSetter__'',
      ''__lookupGetter__'', ''__lookupSetter__'']"

definition inherited :: "string \<Rightarrow> bool" where
  "inherited k = (k = ''constructor'' \<or> k = ''__proto__'' \<or> k \<in> set object_prototype_methods)"

definition prototype_get :: "string \<Rightarrow> jsval" where
  "prototype_get k =
     (if k = ''constructor'' then Builtin ObjectConstructor
      else if k = ''__proto__'' then Builtin ObjectPrototype
      else if k \<in> set object_prototype_methods then Builtin (ObjectMethod k)
      else Undefined)"

text \<open>\<^verbatim>\<open>obj[k]\<close> for an object literal with the own properties \<open>own\<close> and a string \<open>k\<close>.\<close>

definition obj_get :: "(string \<times> jsval) list \<Rightarrow> string \<Rightarrow> jsval" where
  "obj_get own k = (case map_of own k of Some v \<Rightarrow> v | None \<Rightarrow> prototype_get k)"

text \<open>
  \<^verbatim>\<open>obj[v]\<close> for any value \<open>v\<close>: the value is converted to a property key first. A string,
  a \<^verbatim>\<open>String\<close> object, \<^verbatim>\<open>undefined\<close>, \<^verbatim>\<open>null\<close> and the booleans give the key written here.
  The key of a number is its decimal form and the key of any other object is a text such
  as \<^verbatim>\<open>[object Object]\<close> or the source of a function; none of these names a property of
  an object literal of this program or of \<^verbatim>\<open>Object.prototype\<close>, so the lookup gives
  \<^verbatim>\<open>undefined\<close>.
\<close>

fun property_key :: "jsval \<Rightarrow> string option" where
  "property_key (Str s) = Some s"
| "property_key (StrObj i s) = Some s"
| "property_key Undefined = Some ''undefined''"
| "property_key Null = Some ''null''"
| "property_key (Bool b) = Some (if b then ''true'' else ''false'')"
| "property_key _ = None"

definition obj_lookup :: "(string \<times> jsval) list \<Rightarrow> jsval \<Rightarrow> jsval" where
  "obj_lookup own v = (case property_key v of Some k \<Rightarrow> obj_get own k | None \<Rightarrow> Undefined)"

section \<open>The button table\<close>

definition buttonCodes :: "(string \<times> jsval) list" where
  "buttonCodes =
     [(''left'', num_of_int 0), (''middle'', num_of_int 1), (''right'', num_of_int 2),
      (''back'', num_of_int 3), (''next'', num_of_int 4)]"

text \<open>
  \<^verbatim>\<open>Object.keys(buttonCodes).find(k => buttonCodes[k] === code)\<close>; the result \<open>None\<close> is
  JavaScript's \<^verbatim>\<open>undefined\<close>.
\<close>

definition nameOf :: "jsval \<Rightarrow> string option" where
  "nameOf code = find (\<lambda>k. strict_eq (obj_get buttonCodes k) code) (map fst buttonCodes)"

definition opt_str :: "string option \<Rightarrow> jsval" where
  "opt_str r = (case r of None \<Rightarrow> Undefined | Some s \<Rightarrow> Str s)"

text \<open>\<^verbatim>\<open>buttonCodes[name.toLowerCase()]\<close>.\<close>

definition codeOf :: "jsval \<Rightarrow> error + jsval" where
  "codeOf name =
     (case toLowerCase name of Inl e \<Rightarrow> Inl e | Inr k \<Rightarrow> Inr (obj_lookup buttonCodes k))"

section \<open>The state of a \<^verbatim>\<open>Mouse\<close> object\<close>

text \<open>
  A property of the target element that holds a native function of the platform, or is
  \<^verbatim>\<open>undefined\<close> (\<open>None\<close>).
\<close>

datatype capability =
    RequestPointerLock | MozRequestPointerLock | WebkitRequestPointerLock
  | ExitPointerLock | MozExitPointerLock | WebkitExitPointerLock

record element =
  elem_id :: nat
  requestPointerLock :: "capability option"
  mozRequestPointerLock :: "capability option"
  webkitRequestPointerLock :: "capability option"
  exitPointerLock :: "capability option"
  mozExitPointerLock :: "capability option"
  webkitExitPointerLock :: "capability option"
  requestLock :: "capability option"
  requestUnlock :: "capability option"
  clientWidth :: jsnum
  clientHeight :: jsnum

text \<open>
  \<open>events\<close> holds the own properties of \<^verbatim>\<open>self.events\<close>: each names an array object of the
  store \<open>arrays\<close>; \<open>next_ref\<close> is the next unused array reference. \<open>events_proto\<close> is the
  prototype of \<^verbatim>\<open>self.events\<close>: \<open>None\<close> is \<^verbatim>\<open>Object.prototype\<close>, which an object literal starts
  with, and \<open>Some r\<close> is the array \<open>r\<close>. \<open>target = None\<close> is a target that is \<^verbatim>\<open>undefined\<close>.
  Three fields record what the program does to its surroundings: the lines written to the
  console, the callbacks invoked with their argument, and the native functions called on
  the target.
\<close>

record mouse =
  target :: "element option"
  events :: "string \<rightharpoonup> nat"
  events_proto :: "nat option"
  arrays :: "nat \<Rightarrow> jsval list"
  next_ref :: nat
  docX :: jsnum
  docY :: jsnum
  docPX :: jsnum
  docPY :: jsnum
  docDX :: jsnum
  docDY :: jsnum
  docDPX :: jsnum
  docDPY :: jsnum
  targetX :: jsnum
  targetY :: jsnum
  targetPX :: jsnum
  targetPY :: jsnum
  buttons :: "jsval set"
  console :: "string list"
  invoked :: "(nat \<times> jsval) list"
  native_calls :: "capability list"

definition warn :: "string \<Rightarrow> mouse \<Rightarrow> mouse" where
  "warn msg m = m\<lparr>console := console m @ [msg]\<rparr>"

section \<open>Subscription\<close>

text \<open>
  The string-named properties of \<^verbatim>\<open>Array.prototype\<close> (ECMAScript 2023), and the array
  indices: a decimal numeral without leading zero.
\<close>

definition array_prototype_names :: "string list" where
  "array_prototype_names =
     [''at'', ''concat'', ''constructor'', ''copyWithin'', ''entries'', ''every'', ''fill'',
      ''filter'', ''find'', ''findIndex'', ''findLast'', ''findLastIndex'', ''flat'',
      ''flatMap'', ''forEach'', ''includes'', ''indexOf'', ''join'', ''keys'',
      ''lastIndexOf'', ''length'', ''map'', ''pop'', ''push'', ''reduce'', ''reduceRight'',
      ''reverse'', ''shift'', ''slice'', ''some'', ''sort'', ''splice'', ''toLocaleString'',
      ''toReversed'', ''toSorted'', ''toSpliced'', ''toString'', ''unshift'', ''values'',
      ''with'']"

definition digit_of :: "char \<Rightarrow> nat option" where
  "digit_of c = map_of (zip ''0123456789'' [0, 1, 2, 3, 4, 5, 6, 7, 8, 9]) c"

fun parse_digits :: "nat \<Rightarrow> string \<Rightarrow> nat option" where
  "parse_digits acc [] = Some acc"
| "parse_digits acc (c # cs) =
     (case digit_of c of None \<Rightarrow> None | Some d \<Rightarrow> parse_digits (10 * acc + d) cs)"

fun array_index :: "string \<Rightarrow> nat option" where
  "array_index [] = None"
| "array_index [c] = digit_of c"
| "array_index (c # cs) = (if c = CHR ''0'' then None else parse_digits 0 (c # cs))"

text \<open>\<^verbatim>\<open>k in xs\<close> for an array \<open>xs\<close>, apart from what \<^verbatim>\<open>Object.prototype\<close> adds.\<close>

definition array_has :: "jsval list \<Rightarrow> string \<Rightarrow> bool" where
  "array_has xs k =
     (k = ''length'' \<or> (case array_index k of Some i \<Rightarrow> i < length xs | None \<Rightarrow> False) \<or>
      k \<in> set array_prototype_names)"

text \<open>
  \<^verbatim>\<open>event in self.events\<close>: true of the own properties and of every name found along the
  prototype chain, which ends in \<^verbatim>\<open>Object.prototype\<close>.
\<close>

definition in_prototype :: "mouse \<Rightarrow> string \<Rightarrow> bool" where
  "in_prototype m ev =
     (case events_proto m of
        None \<Rightarrow> inherited ev
      | Some r \<Rightarrow> array_has (arrays m r) ev \<or> inherited ev)"

definition has_property :: "mouse \<Rightarrow> string \<Rightarrow> bool" where
  "has_property m ev = (ev \<in> dom (events m) \<or> in_prototype m ev)"

text \<open>
  The array that \<^verbatim>\<open>self.events[event]\<close> reads, if it reads one: an own property, or the
  prototype itself under the name \<^verbatim>\<open>__proto__\<close> once it is an array. Every other inherited
  property holds a function, a number, a listener or \<^verbatim>\<open>Object.prototype\<close>, none of which has
  \<^verbatim>\<open>push\<close>, \<^verbatim>\<open>indexOf\<close> or \<^verbatim>\<open>map\<close>; a name that is no property reads \<^verbatim>\<open>undefined\<close>.
\<close>

definition listener_array :: "mouse \<Rightarrow> string \<Rightarrow> nat option" where
  "listener_array m ev =
     (case events m ev of
        Some r \<Rightarrow> Some r
      | None \<Rightarrow> if ev = ''__proto__'' then events_proto m else None)"

definition on :: "string \<Rightarrow> jsval \<Rightarrow> mouse \<Rightarrow> (error + bool) \<times> mouse" where
  "on ev callback m =
     (if has_property m ev then
        (case listener_array m ev of
           Some r \<Rightarrow> (Inr True, m\<lparr>arrays := (arrays m)(r := arrays m r @ [callback])\<rparr>)
         | None \<Rightarrow> (Inl TypeError, m))
      else (Inr False, warn ''MouseError: Event not found!'' m))"

text \<open>\<^verbatim>\<open>xs.indexOf(v)\<close>, with \<open>None\<close> for -1, and \<^verbatim>\<open>xs.splice(i, 1)\<close>.\<close>

fun index_of :: "jsval list \<Rightarrow> jsval \<Rightarrow> nat option" where
  "index_of [] v = None"
| "index_of (x # xs) v = (if strict_eq x v then Some 0 else map_option Suc (index_of xs v))"

definition splice1 :: "nat \<Rightarrow> 'a list \<Rightarrow> 'a list" where
  "splice1 i xs = take i xs @ drop (Suc i) xs"

text \<open>
  \<^verbatim>\<open>self.events[event] = []\<close> with a new array \<open>r\<close>. The name \<^verbatim>\<open>__proto__\<close> is an accessor of
  \<^verbatim>\<open>Object.prototype\<close>: the assignment makes the array the prototype of \<^verbatim>\<open>self.events\<close>. Every
  other name becomes (or stays) an own property.
\<close>

definition assign_event :: "string \<Rightarrow> nat \<Rightarrow> mouse \<Rightarrow> mouse" where
  "assign_event ev r m =
     (if ev = ''__proto__'' \<and> ev \<notin> dom (events m) then m\<lparr>events_proto := Some r\<rparr>
      else m\<lparr>events := (events m)(ev \<mapsto> r)\<rparr>)"

text \<open>
  \<^verbatim>\<open>off(event, callback)\<close>. With \<^verbatim>\<open>"all"\<close> the property is assigned a new empty array; the
  array that was there is not touched.
\<close>

definition off :: "string \<Rightarrow> jsval \<Rightarrow> mouse \<Rightarrow> (error + bool) \<times> mouse" where
  "off ev callback m =
     (if strict_eq callback (Str ''all'') then
        (if has_property m ev then
           (Inr True,
            assign_event ev (next_ref m)
              (m\<lparr>arrays := (arrays m)(next_ref m := []), next_ref := Suc (next_ref m)\<rparr>))
         else (Inr False, warn ''MouseError: Event not found!'' m))
      else if has_property m ev then
        (case listener_array m ev of
           None \<Rightarrow> (Inl TypeError, m)
         | Some r \<Rightarrow>
             (case index_of (arrays m r) callback of
                None \<Rightarrow> (Inr False, warn ''MouseError: Callback not found!'' m)
              | Some i \<Rightarrow> (Inr True, m\<lparr>arrays := (arrays m)(r := splice1 i (arrays m r))\<rparr>)))
      else (Inr False, warn ''MouseError: Event not found!'' m))"

section \<open>Callbacks and dispatch\<close>

text \<open>
  A callback is application code: it may do anything to the object, whose fields are all
  public, and it may throw. The model takes what each callback does, for each argument, as
  a function on the state of the object.
\<close>

type_synonym behaviour = "nat \<Rightarrow> jsval \<Rightarrow> mouse \<Rightarrow> (error + unit) \<times> mouse"

text \<open>\<^verbatim>\<open>typeof v === "object" || typeof v === "function"\<close>, for a \<open>v\<close> that is not \<^verbatim>\<open>null\<close>.\<close>

fun is_object :: "jsval \<Rightarrow> bool" where
  "is_object (Fn i) = True"
| "is_object (Builtin b) = True"
| "is_object (Elem i) = True"
| "is_object (Ev e) = True"
| "is_object (StrObj i s) = True"
| "is_object (Obj i r) = True"
| "is_object _ = False"

text \<open>
  \<^verbatim>\<open>f(params)\<close>, a call without receiver. A callback runs. \<^verbatim>\<open>Object\<close> is callable and changes
  nothing. Of the methods of \<^verbatim>\<open>Object.prototype\<close>, \<^verbatim>\<open>toString\<close> accepts the missing receiver
  and \<^verbatim>\<open>isPrototypeOf\<close> returns before it looks at the receiver when its argument is not an
  object; the others throw. Every other value is not a function.
\<close>

fun call_value :: "behaviour \<Rightarrow> jsval \<Rightarrow> jsval \<Rightarrow> mouse \<Rightarrow> (error + unit) \<times> mouse" where
  "call_value beh (Fn i) params m = beh i params (m\<lparr>invoked := invoked m @ [(i, params)]\<rparr>)"
| "call_value beh (Builtin ObjectConstructor) params m = (Inr (), m)"
| "call_value beh (Builtin (ObjectMethod k)) params m =
     (if k = ''toString'' \<or> (k = ''isPrototypeOf'' \<and> \<not> is_object params)
      then (Inr (), m) else (Inl TypeError, m))"
| "call_value beh _ params m = (Inl TypeError, m)"

text \<open>
  \<^verbatim>\<open>Array.prototype.map\<close> reads the length once, then visits the indices below it in order;
  at each index it reads the array as it is at that moment and skips an index the array no
  longer has. \<open>emit_loop beh r params k n\<close> visits the \<open>n\<close> indices from \<open>k\<close> of the array
  \<open>r\<close>. An exception of a callback ends the traversal.
\<close>

fun emit_loop :: "behaviour \<Rightarrow> nat \<Rightarrow> jsval \<Rightarrow> nat \<Rightarrow> nat \<Rightarrow> mouse \<Rightarrow> (error + unit) \<times> mouse" where
  "emit_loop beh r params k 0 m = (Inr (), m)"
| "emit_loop beh r params k (Suc n) m =
     (if k < length (arrays m r) then
        (case call_value beh (arrays m r ! k) params m of
           (Inl e, m') \<Rightarrow> (Inl e, m')
         | (Inr _, m') \<Rightarrow> emit_loop beh r params (Suc k) n m')
      else emit_loop beh r params (Suc k) n m)"

text \<open>
  \<^verbatim>\<open>self.events[event].map((f) => f(params))\<close>: when the value read is not an array it is
  \<^verbatim>\<open>undefined\<close> or an object without \<^verbatim>\<open>map\<close>, and the call throws.
\<close>

definition emit :: "behaviour \<Rightarrow> string \<Rightarrow> jsval \<Rightarrow> mouse \<Rightarrow> (error + unit) \<times> mouse" where
  "emit beh ev params m =
     (case listener_array m ev of
        Some r \<Rightarrow> emit_loop beh r params 0 (length (arrays m r)) m
      | None \<Rightarrow> (Inl TypeError, m))"

subsection \<open>Callbacks that only subscribe and unsubscribe\<close>

text \<open>
  A callback whose whole effect is a sequence of calls of \<^verbatim>\<open>on\<close> and \<^verbatim>\<open>off\<close>, which it
  may choose by its argument and by the state it finds. An exception of such a call leaves
  the callback.
\<close>

datatype action = CallOn string jsval | CallOff string jsval

fun run_action :: "action \<Rightarrow> mouse \<Rightarrow> (error + bool) \<times> mouse" where
  "run_action (CallOn ev cb) m = on ev cb m"
| "run_action (CallOff ev cb) m = off ev cb m"

fun run_actions :: "action list \<Rightarrow> mouse \<Rightarrow> (error + unit) \<times> mouse" where
  "run_actions [] m = (Inr (), m)"
| "run_actions (a # as) m =
     (case run_action a m of
        (Inl e, m') \<Rightarrow> (Inl e, m')
      | (Inr _, m') \<Rightarrow> run_actions as m')"

definition scripted :: "(nat \<Rightarrow> jsval \<Rightarrow> mouse \<Rightarrow> action list) \<Rightarrow> behaviour" where
  "scripted script i params m = run_actions (script i params m) m"

section \<open>Pointer lock\<close>

text \<open>
  \<^verbatim>\<open>self.target.requestLock()\<close>: the property was assigned by the constructor; when it holds
  \<^verbatim>\<open>undefined\<close> the call throws.
\<close>

definition lock :: "mouse \<Rightarrow> (error + unit) \<times> mouse" where
  "lock m =
     (case target m of
        Some t \<Rightarrow>
          (case requestLock t of
             Some c \<Rightarrow> (Inr (), m\<lparr>native_calls := native_calls m @ [c]\<rparr>)
           | None \<Rightarrow> (Inl TypeError, m))
      | None \<Rightarrow> (Inr (), warn ''MouseError: Target is undefined!'' m))"

definition unlock :: "mouse \<Rightarrow> (error + unit) \<times> mouse" where
  "unlock m =
     (case target m of
        Some t \<Rightarrow>
          (case requestUnlock t of
             Some c \<Rightarrow> (Inr (), m\<lparr>native_calls := native_calls m @ [c]\<rparr>)
           | None \<Rightarrow> (Inl TypeError, m))
      | None \<Rightarrow> (Inr (), warn ''MouseError: Target is undefined!'' m))"

text \<open>What the handler of a lock change reads from \<^verbatim>\<open>document\<close>.\<close>

record document =
  pointerLockElement :: jsval
  mozPointerLockElement :: jsval
  webkitPointerLockElement :: jsval

definition target_val :: "mouse \<Rightarrow> jsval" where
  "target_val m = (case target m of None \<Rightarrow> Undefined | Some t \<Rightarrow> Elem (elem_id t))"

definition lockChange :: "behaviour \<Rightarrow> document \<Rightarrow> mouse \<Rightarrow> (error + unit) \<times> mouse" where
  "lockChange beh doc m =
     (let state = (strict_eq (pointerLockElement doc) (target_val m) \<or>
                   strict_eq (mozPointerLockElement doc) (target_val m) \<or>
                   strict_eq (webkitPointerLockElement doc) (target_val m))
      in case emit beh ''lockchange'' (Bool state) m of
           (Inl e, m') \<Rightarrow> (Inl e, m')
         | (Inr _, m') \<Rightarrow> emit beh (if state then ''lock'' else ''unlock'') Undefined m')"

definition lockError :: "behaviour \<Rightarrow> mouse \<Rightarrow> (error + unit) \<times> mouse" where
  "lockError beh m = emit beh ''lockerror'' Undefined m"

section \<open>Movement and buttons\<close>

text \<open>The module-level \<^verbatim>\<open>Screen\<close> object: the size of the window when it is read.\<close>

record screen =
  width :: jsnum
  height :: jsnum

definition aspect :: "screen \<Rightarrow> jsnum" where
  "aspect scr = js_div (width scr) (height scr)"

text \<open>\<^verbatim>\<open>(v / d - 0.5) * 2\<close>\<close>

definition normalized :: "jsnum \<Rightarrow> jsnum \<Rightarrow> jsnum" where
  "normalized v d = js_mul (js_sub (js_div v d) (Fin (1 / 2))) (Fin 2)"

definition docMove :: "behaviour \<Rightarrow> screen \<Rightarrow> mouse_event \<Rightarrow> mouse \<Rightarrow> (error + unit) \<times> mouse" where
  "docMove beh scr e m =
     emit beh ''move'' (Ev e)
       (m\<lparr>docPX := pageX e,
          docPY := pageY e,
          docX := normalized (pageX e) (width scr),
          docY := normalized (pageY e) (height scr),
          docDPX := movementX e,
          docDPY := movementY e,
          docDX := normalized (movementX e) (width scr),
          docDY := normalized (movementY e) (height scr)\<rparr>)"

text \<open>
  The two pixel fields are assigned before \<^verbatim>\<open>self.target.clientWidth\<close> is read, which throws
  when there is no target.
\<close>

definition targetMove :: "behaviour \<Rightarrow> screen \<Rightarrow> mouse_event \<Rightarrow> mouse \<Rightarrow> (error + unit) \<times> mouse" where
  "targetMove beh scr e m =
     (let m1 = m\<lparr>targetPX := clientX e, targetPY := clientY e\<rparr>
      in case target m of
           None \<Rightarrow> (Inl TypeError, m1)
         | Some t \<Rightarrow>
             docMove beh scr e
               (m1\<lparr>targetX := normalized (clientX e) (clientWidth t),
                   targetY := normalized (clientY e) (clientHeight t)\<rparr>))"

text \<open>The template literal \<^verbatim>\<open>`${nameOf(e.button)}down`\<close> writes \<^verbatim>\<open>undefined\<close> as text.\<close>

definition template :: "string option \<Rightarrow> string \<Rightarrow> string" where
  "template name suffix = (case name of None \<Rightarrow> ''undefined'' | Some n \<Rightarrow> n) @ suffix"

definition docDown :: "behaviour \<Rightarrow> mouse_event \<Rightarrow> mouse \<Rightarrow> (error + unit) \<times> mouse" where
  "docDown beh e m =
     (let m1 = m\<lparr>buttons := insert (num_of_int (button e)) (buttons m)\<rparr>
      in case emit beh (template (nameOf (num_of_int (button e))) ''down'') (Ev e) m1 of
           (Inl err, m2) \<Rightarrow> (Inl err, m2)
         | (Inr _, m2) \<Rightarrow> emit beh ''anydown'' (Ev e) m2)"

definition docUp :: "behaviour \<Rightarrow> mouse_event \<Rightarrow> mouse \<Rightarrow> (error + unit) \<times> mouse" where
  "docUp beh e m =
     (let m1 = m\<lparr>buttons := buttons m - {num_of_int (button e)}\<rparr>
      in case emit beh (template (nameOf (num_of_int (button e))) ''up'') (Ev e) m1 of
           (Inl err, m2) \<Rightarrow> (Inl err, m2)
         | (Inr _, m2) \<Rightarrow> emit beh ''anyup'' (Ev e) m2)"

fun typeof :: "jsval \<Rightarrow> string" where
  "typeof Undefined = ''undefined''"
| "typeof Null = ''object''"
| "typeof (Bool b) = ''boolean''"
| "typeof (Num n) = ''number''"
| "typeof (Str s) = ''string''"
| "typeof (Fn i) = ''function''"
| "typeof (Builtin ObjectPrototype) = ''object''"
| "typeof (Builtin b) = ''function''"
| "typeof (Elem i) = ''object''"
| "typeof (Ev e) = ''object''"
| "typeof (StrObj i s) = ''object''"
| "typeof (Obj i r) = ''object''"


section \<open>Construction\<close>

definition event_table :: "(string \<times> nat) list" where
  "event_table =
     [(''move'', 0), (''anydown'', 1), (''anyup'', 2), (''unlock'', 3), (''lock'', 4),
      (''lockchange'', 5), (''lockerror'', 6), (''leftdown'', 7), (''leftup'', 8),
      (''rightdown'', 9), (''rightup'', 10), (''middledown'', 11), (''middleup'', 12),
      (''backdown'', 13), (''backup'', 14), (''nextdown'', 15), (''nextup'', 16)]"

definition event_names :: "string list" where
  "event_names = map fst event_table"

text \<open>\<^verbatim>\<open>a || b || c\<close> on properties that hold a function or \<^verbatim>\<open>undefined\<close>.\<close>

definition or_else :: "'a option \<Rightarrow> 'a option \<Rightarrow> 'a option" where
  "or_else a b = (case a of Some x \<Rightarrow> Some x | None \<Rightarrow> b)"

definition alias_target :: "element \<Rightarrow> element" where
  "alias_target t =
     (let t1 = t\<lparr>requestLock :=
                  or_else (requestPointerLock t)
                    (or_else (mozRequestPointerLock t) (webkitRequestPointerLock t))\<rparr>
      in t1\<lparr>requestUnlock :=
               or_else (exitPointerLock t1)
                 (or_else (mozExitPointerLock t1) (webkitExitPointerLock t1))\<rparr>)"

text \<open>
  \<^verbatim>\<open>new Mouse(target)\<close>. The seventeen arrays of the literal get the references 0 to 16.
  The constructor also registers the handlers below with the document and the target.
\<close>

definition Mouse :: "element option \<Rightarrow> mouse" where
  "Mouse tgt =
     \<lparr>target = map_option alias_target tgt,
      events = map_of event_table,
      events_proto = None,
      arrays = (\<lambda>r. []),
      next_ref = 17,
      docX = Fin 0, docY = Fin 0, docPX = Fin 0, docPY = Fin 0,
      docDX = Fin 0, docDY = Fin 0, docDPX = Fin 0, docDPY = Fin 0,
      targetX = Fin 0, targetY = Fin 0, targetPX = Fin 0, targetPY = Fin 0,
      buttons = {},
      console = [],
      invoked = [],
      native_calls = []\<rparr>"

section \<open>Replaying notifications\<close>

text \<open>
  The host calls the handler of each notification in turn. It reports an exception of a
  handler and goes on with the next notification; the object keeps the state in which the
  handler left it.
\<close>

datatype notification = ButtonDown mouse_event | ButtonUp mouse_event

fun notify :: "behaviour \<Rightarrow> notification \<Rightarrow> mouse \<Rightarrow> (error + unit) \<times> mouse" where
  "notify beh (ButtonDown e) m = docDown beh e m"
| "notify beh (ButtonUp e) m = docUp beh e m"

fun replay :: "behaviour \<Rightarrow> notification list \<Rightarrow> mouse \<Rightarrow> mouse" where
  "replay beh [] m = m"
| "replay beh (n # ns) m = replay beh ns (snd (notify beh n m))"

text \<open>
  The specification's reading of a sequence of notifications: a button is held when the
  most recent notification that names it is a button-down.
\<close>

fun notified_button :: "notification \<Rightarrow> int" where
  "notified_button (ButtonDown e) = button e"
| "notified_button (ButtonUp e) = button e"

definition most_recent :: "int \<Rightarrow> notification list \<Rightarrow> notification option" where
  "most_recent b ns = find (\<lambda>n. notified_button n = b) (rev ns)"

definition held :: "notification list \<Rightarrow> int set" where
  "held ns =
     {b \<in> notified_button ` set ns.
        case most_recent b ns of Some (ButtonDown e) \<Rightarrow> True | _ \<Rightarrow> False}"

section \<open>Invariants and notions used in the statements\<close>

text \<open>
  The fields that subscription and dispatch never assign are the same in \<open>m\<close> and \<open>m'\<close>.
\<close>

definition same_fields :: "mouse \<Rightarrow> mouse \<Rightarrow> bool" where
  "same_fields m m' =
     (m' = m\<lparr>events := events m', events_proto := events_proto m', arrays := arrays m',
             next_ref := next_ref m', console := console m', invoked := invoked m'\<rparr>)"

text \<open>
  The prototype of \<^verbatim>\<open>self.events\<close> is still \<^verbatim>\<open>Object.prototype\<close>, distinct event names denote
  distinct array objects, and every array in use was allocated. The constructor
  establishes this; \<^verbatim>\<open>on\<close> keeps it, and so does \<^verbatim>\<open>off\<close> for every name but \<^verbatim>\<open>__proto__\<close>.
\<close>

definition well_formed :: "mouse \<Rightarrow> bool" where
  "well_formed m =
     (events_proto m = None \<and> inj_on (events m) (dom (events m)) \<and>
      (\<forall>r \<in> ran (events m). r < next_ref m))"




text \<open>No listener is registered anywhere.\<close>

definition quiet :: "mouse \<Rightarrow> bool" where
  "quiet m = (\<forall>r. arrays m r = [])"



text \<open>
  The bounding box of the target in the viewport, and a pointer at its top-left corner:
  \<^verbatim>\<open>clientX\<close> and \<^verbatim>\<open>clientY\<close> of a notification are coordinates in the viewport.
\<close>

record box =
  box_left :: rat
  box_top :: rat
  box_width :: rat
  box_height :: rat

definition at_top_left :: "box \<Rightarrow> mouse_event \<Rightarrow> bool" where
  "at_top_left bx e = (clientX e = Fin (box_left bx) \<and> clientY e = Fin (box_top bx))"

section \<open>Concrete inputs\<close>

definition silent :: behaviour where
  "silent i p m = (Inr (), m)"

definition no_calls :: "nat \<Rightarrow> jsval \<Rightarrow> mouse \<Rightarrow> action list" where
  "no_calls i p m = []"





text \<open>A callback that throws.\<close>

definition throwing :: behaviour where
  "throwing i p m = (Inl (Thrown 0), m)"

definition two_listeners :: mouse where
  "two_listeners = snd (on ''move'' (Fn 1) (snd (on ''move'' (Fn 0) (Mouse None))))"

definition event_at :: "int \<Rightarrow> rat \<Rightarrow> rat \<Rightarrow> mouse_event" where
  "event_at b x y =
     \<lparr>event_id = 0, button = b, pageX = Fin x, pageY = Fin y, movementX = Fin 0,
      movementY = Fin 0, clientX = Fin x, clientY = Fin y\<rparr>"

text \<open>An element without any of the six lock functions, and one as browsers provide it.\<close>

definition bare_element :: element where
  "bare_element =
     \<lparr>elem_id = 1,
      requestPointerLock = None, mozRequestPointerLock = None,
      webkitRequestPointerLock = None,
      exitPointerLock = None, mozExitPointerLock = None, webkitExitPointerLock = None,
      requestLock = None, requestUnlock = None,
      clientWidth = Fin 200, clientHeight = Fin 100\<rparr>"

definition browser_element :: element where
  "browser_element = bare_element\<lparr>requestPointerLock := Some RequestPointerLock\<rparr>"

definition target_box :: box where
  "target_box = \<lparr>box_left = 100, box_top = 50, box_width = 200, box_height = 100\<rparr>"

definition locked_document :: document where
  "locked_document =
     \<lparr>pointerLockElement = Elem 1, mozPointerLockElement = Undefined,
      webkitPointerLockElement = Undefined\<rparr>"

section \<open>Evaluating the arithmetic\<close>

lemma floor_rat_numeral: "\<lfloor>(numeral a :: rat) / numeral b\<rfloor> = numeral a div numeral b"
  using floor_divide_of_int_eq [of "numeral a" "numeral b", where ?'a = rat] by simp

lemmas double_eval = round_double_def double_exponent_def double_mantissa_def ilog2_def pow2_def
  round_half_even_def bit_length.simps floor_rat_numeral

lemma normalized_examples:
  "normalized (Fin 500) (Fin 1000) = Fin 0"
  "normalized (Fin 250) (Fin 500) = Fin 0"
  "normalized (Fin 1000) (Fin 1000) = Fin 1"
  "normalized (Fin 500) (Fin 500) = Fin 1"
  "normalized (Fin 2000) (Fin 1000) = Fin 3"
  "normalized (Fin (- 250)) (Fin 500) = Fin (- 2)"
  "normalized (Fin 100) (Fin 200) = Fin 0"
  "normalized (Fin 50) (Fin 100) = Fin 0"
  "normalized (Fin 0) (Fin 1000) = Fin (- 1)"
  "normalized (Fin 0) (Fin 500) = Fin (- 1)"
  by (simp_all add: normalized_def double_eval)

lemma normalized_third:
  "js_div (Fin 1) (Fin 3) = Fin (6004799503160661 / 18014398509481984)"
  "normalized (Fin 1) (Fin 3) = Fin (- 3002399751580331 / 9007199254740992)"
  by (simp_all add: normalized_def double_eval)

lemma normalized_zero_width:
  "normalized (Fin 5) (Fin 0) = PInf"
  "normalized (Fin (- 5)) (Fin 0) = NInf"
  "normalized (Fin 0) (Fin 0) = NaN"
  by (simp_all add: normalized_def)

lemma bit_length_gt: "2 ^ k \<le> n \<Longrightarrow> k < bit_length n"
proof (induction k arbitrary: n)
  case 0
  then show ?case by (subst bit_length.simps) simp
next
  case (Suc k)
  then have "2 ^ k \<le> n div 2" by simp
  then have "k < bit_length (n div 2)" by (rule Suc.IH)
  moreover have "n \<noteq> 0"
  proof
    assume "n = 0"
    with Suc.prems show False by simp
  qed
  ultimately show ?case by (subst bit_length.simps) simp
qed

lemma round_double_overflow:
  assumes "2 ^ 1024 \<le> \<bar>q\<bar>"
  shows "round_double q = (if 0 < q then PInf else NInf)"
proof -
  have "(2::int) ^ 1024 \<le> \<lfloor>\<bar>q\<bar>\<rfloor>" using assms by (simp add: le_floor_iff)
  then have "(2::nat) ^ 1024 \<le> nat \<lfloor>\<bar>q\<bar>\<rfloor>" by (simp add: le_nat_iff)
  then have "1024 < bit_length (nat \<lfloor>\<bar>q\<bar>\<rfloor>)" by (rule bit_length_gt)
  moreover have "1 \<le> \<bar>q\<bar>"
  proof -
    have "(1::rat) \<le> 2 ^ 1024" by simp
    with assms show ?thesis by linarith
  qed
  ultimately have "971 < double_exponent \<bar>q\<bar>"
    by (simp add: double_exponent_def ilog2_def)
  moreover from assms have "q \<noteq> 0" by auto
  ultimately show ?thesis by (simp add: round_double_def)
qed

lemma js_mul_overflow: "js_mul (Fin (2 ^ 1023)) (Fin 2) = PInf"
  using round_double_overflow [of "2 ^ 1023 * 2"] by simp

lemma bit_length_power2: "bit_length (2 ^ k) = Suc k"
proof (induction k)
  case 0
  show ?case by (simp add: bit_length.simps)
next
  case (Suc k)
  have "bit_length (2 ^ Suc k) = Suc (bit_length (2 ^ Suc k div 2))"
    by (subst bit_length.simps) simp
  with Suc show ?case by simp
qed

lemma bit_length_power2_minus: "bit_length (2 ^ k - 1) = k"
proof (induction k)
  case 0
  show ?case by (simp add: bit_length.simps)
next
  case (Suc k)
  have one: "(1::nat) \<le> 2 ^ k" by simp
  have pos: "(2::nat) ^ Suc k - 1 \<noteq> 0" unfolding power_Suc using one by arith
  have half: "((2::nat) ^ Suc k - 1) div 2 = 2 ^ k - 1" unfolding power_Suc using one by arith
  have "bit_length (2 ^ Suc k - 1) = Suc (bit_length ((2 ^ Suc k - 1) div 2))"
    using pos by (subst bit_length.simps) simp
  with Suc half show ?case by simp
qed

lemma round_double_top: "round_double (2 ^ 1023) = Fin (2 ^ 1023)"
proof -
  define a :: rat where "a = 2 ^ 1023"
  have fl: "nat \<lfloor>a\<rfloor> = 2 ^ 1023" unfolding a_def by (simp del: power_numeral)
  have one: "1 \<le> a" unfolding a_def by simp
  have "ilog2 a = 1023"
    unfolding ilog2_def fl bit_length_power2 using one by simp
  then have e: "double_exponent a = 971" by (simp add: double_exponent_def)
  have q: "a / pow2 971 = 4503599627370496" unfolding a_def by (simp add: pow2_def)
  have m: "double_mantissa a = 4503599627370496"
    unfolding double_mantissa_def e q by (simp add: round_half_even_def)
  have v: "of_int 4503599627370496 * pow2 971 = a" unfolding a_def by (simp add: pow2_def)
  have abs: "\<bar>a\<bar> = a" using one by simp
  have "round_double a = Fin a"
    unfolding round_double_def abs e m v using one by simp
  then show ?thesis unfolding a_def .
qed

lemma round_double_below_top: "round_double (2 ^ 1023 - 1 / 2) = Fin (2 ^ 1023)"
proof -
  define a :: rat where "a = 2 ^ 1023 - 1 / 2"
  have "\<lfloor>a\<rfloor> = 2 ^ 1023 - 1" unfolding a_def by (rule floor_unique) simp_all
  then have fl: "nat \<lfloor>a\<rfloor> = 2 ^ 1023 - 1"
    by (simp del: power_numeral add: nat_diff_distrib nat_power_eq)
  have one: "1 \<le> a" unfolding a_def by simp
  have "ilog2 a = 1022"
    unfolding ilog2_def fl bit_length_power2_minus using one by simp
  then have e: "double_exponent a = 970" by (simp add: double_exponent_def)
  have fq: "\<lfloor>a / pow2 970\<rfloor> = 9007199254740991"
    unfolding a_def by (rule floor_unique) (simp_all add: pow2_def)
  have gt: "1 / 2 < a / pow2 970 - of_int 9007199254740991"
    unfolding a_def by (simp add: pow2_def)
  have m: "double_mantissa a = 9007199254740992"
    unfolding double_mantissa_def e round_half_even_def fq using gt by simp
  have v: "of_int 9007199254740992 * pow2 970 = (2::rat) ^ 1023" by (simp add: pow2_def)
  have abs: "\<bar>a\<bar> = a" using one by simp
  have "round_double a = Fin (2 ^ 1023)"
    unfolding round_double_def abs e m v using one by simp
  then show ?thesis unfolding a_def .
qed

text \<open>
  The largest power of two among the doubles, \<open>2 ^ 1023\<close>, divided by 1: the quotient is
  exact, subtracting 0.5 rounds back to \<open>2 ^ 1023\<close>, and doubling overflows.
\<close>

lemma normalized_overflow: "normalized (Fin (2 ^ 1023)) (Fin 1) = PInf"
proof -
  have "js_div (Fin (2 ^ 1023)) (Fin 1) = Fin (2 ^ 1023)"
    using round_double_top by (simp del: power_numeral)
  moreover have "js_sub (Fin (2 ^ 1023)) (Fin (1 / 2)) = Fin (2 ^ 1023)"
    using round_double_below_top by (simp del: power_numeral)
  ultimately show ?thesis unfolding normalized_def by (simp only: js_mul_overflow)
qed

section \<open>Lemmas about the button table\<close>

lemma lower_string_is_name:
  "lower_string s \<in> set (map fst buttonCodes) \<Longrightarrow>
     nameOf (obj_get buttonCodes (lower_string s)) = Some (lower_string s)"
  by (auto simp: buttonCodes_def nameOf_def obj_get_def strict_eq_def num_of_int_def)

lemma typeof_string: "typeof v = ''string'' \<longleftrightarrow> (\<exists>s. v = Str s)"
  by (cases v rule: typeof.cases) auto




section \<open>The fields that subscription leaves alone\<close>

lemma same_fields_refl: "same_fields m m"
  by (simp add: same_fields_def)

lemma same_fields_trans: "same_fields a b \<Longrightarrow> same_fields b c \<Longrightarrow> same_fields a c"
  unfolding same_fields_def
proof -
  assume ab: "b = a\<lparr>events := events b, events_proto := events_proto b, arrays := arrays b,
             next_ref := next_ref b, console := console b, invoked := invoked b\<rparr>"
    and bc: "c = b\<lparr>events := events c, events_proto := events_proto c, arrays := arrays c,
             next_ref := next_ref c, console := console c, invoked := invoked c\<rparr>"
  show "c = a\<lparr>events := events c, events_proto := events_proto c, arrays := arrays c,
             next_ref := next_ref c, console := console c, invoked := invoked c\<rparr>"
    by (subst bc, subst ab) simp
qed

lemma same_fields_on: "same_fields m (snd (on ev cb m))"
  by (simp add: on_def same_fields_def warn_def split: option.splits)

lemma same_fields_off: "same_fields m (snd (off ev cb m))"
  by (simp add: off_def assign_event_def same_fields_def warn_def split: option.splits)

lemma same_fields_run_action: "same_fields m (snd (run_action a m))"
  by (cases a) (simp_all add: same_fields_on same_fields_off)

lemma same_fields_run_actions: "same_fields m (snd (run_actions as m))"
proof (induction as arbitrary: m)
  case Nil
  show ?case by (simp add: same_fields_refl)
next
  case (Cons a as)
  obtain r m1 where step: "run_action a m = (r, m1)" by (cases "run_action a m")
  have m1: "same_fields m m1" using same_fields_run_action [of m a] step by simp
  show ?case
  proof (cases r)
    case (Inl e)
    with step m1 show ?thesis by simp
  next
    case (Inr b)
    with step have "snd (run_actions (a # as) m) = snd (run_actions as m1)" by simp
    with same_fields_trans [OF m1 Cons.IH [of m1]] show ?thesis by simp
  qed
qed

lemma same_fields_scripted: "same_fields m (snd (scripted script i p m))"
  by (simp add: scripted_def same_fields_run_actions)

lemma same_fields_invoked: "same_fields m (m\<lparr>invoked := x\<rparr>)"
  by (simp add: same_fields_def)

text \<open>Dispatch leaves these fields alone when every callback does.\<close>

lemma same_fields_call_value:
  assumes "\<And>i p m. same_fields m (snd (beh i p m))"
  shows "same_fields m (snd (call_value beh f p m))"
proof (cases "(beh, f, p, m)" rule: call_value.cases)
  case (1 beh' i params m')
  then show ?thesis
    using same_fields_trans [OF same_fields_invoked assms]
    by simp
qed (simp_all add: same_fields_refl)

lemma same_fields_emit_loop:
  assumes "\<And>i p m. same_fields m (snd (beh i p m))"
  shows "same_fields m (snd (emit_loop beh r p k n m))"
proof (induction n arbitrary: k m)
  case 0
  show ?case by (simp add: same_fields_refl)
next
  case (Suc n)
  show ?case
  proof (cases "k < length (arrays m r)")
    case False
    then show ?thesis using Suc.IH by simp
  next
    case True
    obtain res m1 where step: "call_value beh (arrays m r ! k) p m = (res, m1)"
      by (cases "call_value beh (arrays m r ! k) p m")
    have m1: "same_fields m m1"
      using same_fields_call_value [of beh m "arrays m r ! k" p, OF assms] step by simp
    show ?thesis
    proof (cases res)
      case (Inl e)
      with True step m1 show ?thesis by simp
    next
      case (Inr u)
      with True step have "snd (emit_loop beh r p k (Suc n) m) = snd (emit_loop beh r p (Suc k) n m1)"
        by simp
      with same_fields_trans [OF m1 Suc.IH [of m1 "Suc k"]] show ?thesis by simp
    qed
  qed
qed

lemma same_fields_emit:
  assumes "\<And>i p m. same_fields m (snd (beh i p m))"
  shows "same_fields m (snd (emit beh ev p m))"
  using same_fields_emit_loop [of beh, OF assms]
  by (simp add: emit_def same_fields_refl split: option.splits)

lemma same_fields_docX: "same_fields m m' \<Longrightarrow> docX m' = docX m"
  unfolding same_fields_def by (erule ssubst) simp

lemma same_fields_docY: "same_fields m m' \<Longrightarrow> docY m' = docY m"
  unfolding same_fields_def by (erule ssubst) simp

section \<open>Dispatch without listeners\<close>

lemma emit_loop_quiet: "quiet m \<Longrightarrow> emit_loop beh r p k n m = (Inr (), m)"
  by (induction n arbitrary: k) (simp_all add: quiet_def)

lemma snd_emit_quiet: "quiet m \<Longrightarrow> snd (emit beh ev p m) = m"
  by (simp add: emit_def emit_loop_quiet split: option.splits)

lemma quiet_buttons: "quiet m \<Longrightarrow> quiet (m\<lparr>buttons := b\<rparr>)"
  by (simp add: quiet_def)

lemma docDown_quiet:
  assumes "quiet m"
  shows "snd (docDown beh e m) = m\<lparr>buttons := insert (num_of_int (button e)) (buttons m)\<rparr>"
proof -
  define m1 where "m1 = m\<lparr>buttons := insert (num_of_int (button e)) (buttons m)\<rparr>"
  define name where "name = template (nameOf (num_of_int (button e))) ''down''"
  have q: "quiet m1" unfolding m1_def using assms by (rule quiet_buttons)
  obtain res where first: "emit beh name (Ev e) m1 = (res, m1)"
    using snd_emit_quiet [OF q, of beh name "Ev e"] by (cases "emit beh name (Ev e) m1") simp
  have "snd (docDown beh e m) = m1"
  proof (cases res)
    case (Inl err)
    with first show ?thesis by (simp add: docDown_def m1_def name_def)
  next
    case (Inr u)
    with first have "snd (docDown beh e m) = snd (emit beh ''anydown'' (Ev e) m1)"
      by (simp add: docDown_def m1_def name_def)
    with snd_emit_quiet [OF q] show ?thesis by simp
  qed
  then show ?thesis by (simp add: m1_def)
qed

lemma docUp_quiet:
  assumes "quiet m"
  shows "snd (docUp beh e m) = m\<lparr>buttons := buttons m - {num_of_int (button e)}\<rparr>"
proof -
  define m1 where "m1 = m\<lparr>buttons := buttons m - {num_of_int (button e)}\<rparr>"
  define name where "name = template (nameOf (num_of_int (button e))) ''up''"
  have q: "quiet m1" unfolding m1_def using assms by (rule quiet_buttons)
  obtain res where first: "emit beh name (Ev e) m1 = (res, m1)"
    using snd_emit_quiet [OF q, of beh name "Ev e"] by (cases "emit beh name (Ev e) m1") simp
  have "snd (docUp beh e m) = m1"
  proof (cases res)
    case (Inl err)
    with first show ?thesis by (simp add: docUp_def m1_def name_def)
  next
    case (Inr u)
    with first have "snd (docUp beh e m) = snd (emit beh ''anyup'' (Ev e) m1)"
      by (simp add: docUp_def m1_def name_def)
    with snd_emit_quiet [OF q] show ?thesis by simp
  qed
  then show ?thesis by (simp add: m1_def)
qed

lemma quiet_Mouse: "quiet (Mouse tgt)"
  by (simp add: quiet_def Mouse_def)

lemma replay_append: "replay beh (ns @ [n]) m = snd (notify beh n (replay beh ns m))"
  by (induction ns arbitrary: m) simp_all

lemma quiet_replay: "quiet m \<Longrightarrow> quiet (replay beh ns m)"
proof (induction ns arbitrary: m)
  case Nil
  then show ?case by simp
next
  case (Cons n ns)
  have "quiet (snd (notify beh n m))"
    using Cons.prems by (cases n) (simp_all add: docDown_quiet docUp_quiet quiet_buttons)
  then show ?case using Cons.IH by simp
qed

lemma most_recent_snoc:
  "most_recent b (ns @ [n]) = (if notified_button n = b then Some n else most_recent b ns)"
  by (simp add: most_recent_def)

lemma most_recent_Some: "most_recent b ns = Some n \<Longrightarrow> n \<in> set ns \<and> notified_button n = b"
proof -
  assume "most_recent b ns = Some n"
  then obtain i where i: "i < length (rev ns)" "notified_button (rev ns ! i) = b" "n = rev ns ! i"
    unfolding most_recent_def find_Some_iff by blast
  from i(1) have "rev ns ! i \<in> set (rev ns)" by (rule nth_mem)
  with i show ?thesis by simp
qed

lemma in_held: "b \<in> held ns \<longleftrightarrow> (\<exists>e. most_recent b ns = Some (ButtonDown e))"
proof
  assume "b \<in> held ns"
  then show "\<exists>e. most_recent b ns = Some (ButtonDown e)"
    by (auto simp: held_def split: option.splits notification.splits)
next
  assume "\<exists>e. most_recent b ns = Some (ButtonDown e)"
  then obtain e where e: "most_recent b ns = Some (ButtonDown e)" ..
  from most_recent_Some [OF e] have "b \<in> notified_button ` set ns" by force
  with e show "b \<in> held ns" by (simp add: held_def)
qed

lemma held_down: "held (ns @ [ButtonDown e]) = insert (button e) (held ns)"
  by (auto simp: in_held most_recent_snoc split: if_splits)

lemma held_up: "held (ns @ [ButtonUp e]) = held ns - {button e}"
  by (auto simp: in_held most_recent_snoc split: if_splits)

lemma inj_num_of_int: "inj num_of_int"
  by (simp add: inj_def num_of_int_def)

section \<open>Dispatch with callbacks that do not disturb it\<close>











section \<open>Well-formed states\<close>




lemma well_formed_off:
  assumes "well_formed m" "ev \<noteq> ''__proto__''"
  shows "well_formed (snd (off ev cb m))"
proof -
  define m' where "m' = m\<lparr>arrays := (arrays m)(next_ref m := []),
      next_ref := Suc (next_ref m), events := (events m)(ev \<mapsto> next_ref m)\<rparr>"
  have fresh: "events m e \<noteq> Some (next_ref m)" for e
    using assms(1) by (auto simp: well_formed_def ran_def)
  have "inj_on (events m') (dom (events m'))"
  proof (rule inj_onI)
    fix a b
    assume "a \<in> dom (events m')" "b \<in> dom (events m')" "events m' a = events m' b"
    with assms(1) fresh [of a] fresh [of b] show "a = b"
      by (auto simp: m'_def well_formed_def inj_on_def dom_def split: if_splits)
  qed
  moreover have "\<forall>r \<in> ran (events m'). r < next_ref m'"
    using assms(1) by (auto simp: m'_def well_formed_def ran_def split: if_splits)
  moreover have "events_proto m' = None" using assms(1) by (simp add: m'_def well_formed_def)
  ultimately have "well_formed m'" by (simp add: well_formed_def)
  with assms show ?thesis
    by (auto simp: off_def assign_event_def m'_def well_formed_def warn_def split: option.splits)
qed

section \<open>Evaluation on concrete states\<close>

lemmas eval_defs = Mouse_def event_table_def on_def off_def assign_event_def has_property_def
  in_prototype_def listener_array_def inherited_def object_prototype_methods_def emit_def warn_def
  strict_eq_def

lemma two_listeners_eq:
  "two_listeners = (Mouse None)\<lparr>arrays := (\<lambda>r. [])(0 := [Fn 0, Fn 1])\<rparr>"
  by (simp add: two_listeners_def eval_defs)



lemma prototype_replaced:
  "fst (off ''__proto__'' (Str ''all'') (Mouse tgt)) = Inr True \<and>
   events_proto (snd (off ''__proto__'' (Str ''all'') (Mouse tgt))) = Some 17 \<and>
   events (snd (off ''__proto__'' (Str ''all'') (Mouse tgt))) = events (Mouse tgt) \<and>
   fst (on ''map'' (Fn 0) (snd (off ''__proto__'' (Str ''all'') (Mouse tgt)))) = Inl TypeError \<and>
   fst (on ''map'' (Fn 0) (Mouse tgt)) = Inr False \<and>
   arrays (snd (on ''__proto__'' (Fn 0) (snd (off ''__proto__'' (Str ''all'') (Mouse tgt))))) 17 =
     [Fn 0] \<and>
   has_property
     (snd (on ''__proto__'' (Fn 0) (snd (off ''__proto__'' (Str ''all'') (Mouse tgt))))) ''0''"
  by (simp add: eval_defs array_has_def array_prototype_names_def digit_of_def)

lemma emit_stops_at_exception:
  "emit throwing ''move'' Undefined two_listeners =
     (Inl (Thrown 0), two_listeners\<lparr>invoked := [(0, Undefined)]\<rparr>)"
  by (simp add: two_listeners_eq eval_defs throwing_def)

section \<open>The claims\<close>

subsection \<open>C1: a button code without a name\<close>

text \<open>
  Claim C1 says that a button-down (button-up) notification whose code has no name in the
  table adds (removes) the code, fires \<^verbatim>\<open>undefineddown\<close> (\<^verbatim>\<open>undefinedup\<close>) and then
  \<^verbatim>\<open>anydown\<close> (\<^verbatim>\<open>anyup\<close>), and never throws. The program does the first and then throws:
  whenever the code has no name and the object has no list called \<^verbatim>\<open>undefineddown\<close>
  (\<^verbatim>\<open>undefinedup\<close>), as in every state that \<^verbatim>\<open>on\<close> and \<^verbatim>\<open>off\<close> reach from the
  constructor's, the handler updates the set of buttons and ends with a \<open>TypeError\<close>
  raised by the first dispatch. The second dispatch is never reached, so no listener of
  \<^verbatim>\<open>anydown\<close> (\<^verbatim>\<open>anyup\<close>) runs.
\<close>

theorem docDown_unknown_button_throws:
  assumes "nameOf (num_of_int (button e)) = None"
    and "events m ''undefineddown'' = None" and "events m ''undefinedup'' = None"
  shows "docDown beh e m =
           (Inl TypeError, m\<lparr>buttons := insert (num_of_int (button e)) (buttons m)\<rparr>) \<and>
         docUp beh e m =
           (Inl TypeError, m\<lparr>buttons := buttons m - {num_of_int (button e)}\<rparr>)"
  using assms by (simp add: docDown_def docUp_def template_def emit_def listener_array_def)

theorem docDown_unknown_button_throws_witness:
  "docDown silent (event_at 5 10 10) (snd (on ''anydown'' (Fn 0) (Mouse None))) =
     (Inl TypeError, (snd (on ''anydown'' (Fn 0) (Mouse None)))\<lparr>buttons := {num_of_int 5}\<rparr>) \<and>
   invoked (snd (docDown silent (event_at 5 10 10) (snd (on ''anydown'' (Fn 0) (Mouse None))))) = []"
  using docDown_unknown_button_throws
          [of "event_at 5 10 10" "snd (on ''anydown'' (Fn 0) (Mouse None))" silent]
  by (simp add: eval_defs event_at_def nameOf_def buttonCodes_def obj_get_def num_of_int_def)

subsection \<open>C2: a change of the pointer lock\<close>

text \<open>
  Claim C2 says that the handler of a lock change stores the new lock state in a field of
  the object, fires \<^verbatim>\<open>lockchange\<close> with it and then one of \<^verbatim>\<open>lock\<close> and \<^verbatim>\<open>unlock\<close>.
  The object has no such field and the handler assigns none: with the document reporting
  the target as the locked element, a listener 0 of \<^verbatim>\<open>lockchange\<close> and a listener 1 of
  \<^verbatim>\<open>lock\<close>, the handler calls listener 0 with \<open>true\<close>, then listener 1 without argument,
  and leaves every other part of the object as it was.
\<close>

theorem lockChange_stores_nothing:
  "lockChange silent locked_document
     (snd (on ''lock'' (Fn 1) (snd (on ''lockchange'' (Fn 0) (Mouse (Some bare_element)))))) =
   (Inr (),
    (snd (on ''lock'' (Fn 1) (snd (on ''lockchange'' (Fn 0) (Mouse (Some bare_element))))))
      \<lparr>invoked := [(0, Bool True), (1, Undefined)]\<rparr>)"
  by (simp add: lockChange_def eval_defs locked_document_def bare_element_def target_val_def
        alias_target_def or_else_def silent_def)

subsection \<open>C3: the position relative to the target\<close>

text \<open>
  Claim C3 says that a movement over the target yields the pointer's position relative to
  the target's bounding box, so that a pointer at the target's top-left corner gets the
  smallest normalized coordinates wherever the target is. The handler divides the
  position in the viewport by the target's size: for a target of 200 by 100 pixels whose
  box starts at (100, 50), a pointer at that corner gets the normalized position (0, 0),
  the centre, and not (-1, -1).
\<close>

theorem targetMove_uses_viewport_position:
  "at_top_left target_box (event_at 0 100 50) \<and>
   clientWidth bare_element = Fin (box_width target_box) \<and>
   clientHeight bare_element = Fin (box_height target_box) \<and>
   targetX (snd (targetMove beh \<lparr>width = Fin 1000, height = Fin 500\<rparr> (event_at 0 100 50)
      (Mouse (Some bare_element)))) = Fin 0 \<and>
   targetY (snd (targetMove beh \<lparr>width = Fin 1000, height = Fin 500\<rparr> (event_at 0 100 50)
      (Mouse (Some bare_element)))) = Fin 0"
  by (simp add: targetMove_def docMove_def eval_defs at_top_left_def target_box_def event_at_def
        bare_element_def alias_target_def or_else_def normalized_examples)

subsection \<open>C4: listeners that change the list being dispatched\<close>




subsection \<open>C5: requesting and releasing the lock\<close>

text \<open>
  Claim C5 says that \<^verbatim>\<open>lockPointer\<close> and \<^verbatim>\<open>unlockPointer\<close> never throw and do nothing when
  the target has none of the platform's lock functions. Without a target the call writes
  the diagnostic, and with a target that has \<^verbatim>\<open>requestPointerLock\<close> it calls that function,
  as claimed. For a target without any of the functions both calls throw a \<open>TypeError\<close>,
  since the aliased property holds \<^verbatim>\<open>undefined\<close>; so does \<^verbatim>\<open>unlockPointer\<close> for an element
  that has \<^verbatim>\<open>requestPointerLock\<close> only.
\<close>

theorem lock_without_capability_throws:
  "lock (Mouse None) = (Inr (), warn ''MouseError: Target is undefined!'' (Mouse None)) \<and>
   lock (Mouse (Some browser_element)) =
     (Inr (), (Mouse (Some browser_element))\<lparr>native_calls := [RequestPointerLock]\<rparr>) \<and>
   lock (Mouse (Some bare_element)) = (Inl TypeError, Mouse (Some bare_element)) \<and>
   unlock (Mouse (Some bare_element)) = (Inl TypeError, Mouse (Some bare_element)) \<and>
   unlock (Mouse (Some browser_element)) = (Inl TypeError, Mouse (Some browser_element))"
  by (simp add: lock_def unlock_def Mouse_def bare_element_def browser_element_def
        alias_target_def or_else_def warn_def)

subsection \<open>C6: the normalized position in the document\<close>

text \<open>
  Claim C6: for every movement notification and every size of the screen, the handler sets
  the normalized position to the value of \<^verbatim>\<open>(pageX / width - 0.5) * 2\<close> and
  \<^verbatim>\<open>(pageY / height - 0.5) * 2\<close>, computed in the arithmetic of JavaScript numbers and not
  clamped, and then dispatches \<^verbatim>\<open>move\<close> with the notification as argument on the object
  with the recomputed fields. This holds whatever the callbacks do. When the callbacks
  only subscribe and unsubscribe, the position is still that value after the dispatch.
\<close>

theorem docMove_normalized_position:
  "docMove beh scr e m =
     emit beh ''move'' (Ev e)
       (m\<lparr>docPX := pageX e, docPY := pageY e,
          docX := js_mul (js_sub (js_div (pageX e) (width scr)) (Fin (1 / 2))) (Fin 2),
          docY := js_mul (js_sub (js_div (pageY e) (height scr)) (Fin (1 / 2))) (Fin 2),
          docDPX := movementX e, docDPY := movementY e,
          docDX := normalized (movementX e) (width scr),
          docDY := normalized (movementY e) (height scr)\<rparr>) \<and>
   docX (snd (docMove (scripted script) scr e m)) =
     js_mul (js_sub (js_div (pageX e) (width scr)) (Fin (1 / 2))) (Fin 2) \<and>
   docY (snd (docMove (scripted script) scr e m)) =
     js_mul (js_sub (js_div (pageY e) (height scr)) (Fin (1 / 2))) (Fin 2)"
proof -
  define m1 where "m1 = m\<lparr>docPX := pageX e, docPY := pageY e,
          docX := js_mul (js_sub (js_div (pageX e) (width scr)) (Fin (1 / 2))) (Fin 2),
          docY := js_mul (js_sub (js_div (pageY e) (height scr)) (Fin (1 / 2))) (Fin 2),
          docDPX := movementX e, docDPY := movementY e,
          docDX := normalized (movementX e) (width scr),
          docDY := normalized (movementY e) (height scr)\<rparr>"
  have eq: "docMove b scr e m = emit b ''move'' (Ev e) m1" for b
    by (simp add: docMove_def m1_def normalized_def)
  have same: "same_fields m1 (snd (emit (scripted script) ''move'' (Ev e) m1))"
    by (rule same_fields_emit) (rule same_fields_scripted)
  have "docX (snd (emit (scripted script) ''move'' (Ev e) m1)) = docX m1"
    "docY (snd (emit (scripted script) ''move'' (Ev e) m1)) = docY m1"
    using same by (simp_all add: same_fields_docX same_fields_docY)
  with eq show ?thesis by (simp add: m1_def)
qed

text \<open>
  On a screen of 1000 by 500: (500, 250) gives (0, 0), (1000, 500) gives (1, 1), and
  (2000, -250), outside the viewport, gives (3, -2). On a screen of width 3 and height 0,
  (1, 5) gives the double nearest to -1/3 that the three operations produce,
  -0.33333333333333337, and \<^verbatim>\<open>Infinity\<close>. On a screen of 1 by 1, the finite position
  \<open>2 ^ 1023\<close> overflows to \<^verbatim>\<open>Infinity\<close>. A listener of \<^verbatim>\<open>move\<close> is called with the
  notification.
\<close>

theorem docMove_normalized_position_witness:
  "docX (snd (docMove (scripted no_calls) \<lparr>width = Fin 1000, height = Fin 500\<rparr> (event_at 0 500 250) (Mouse None))) = Fin 0 \<and>
   docY (snd (docMove (scripted no_calls) \<lparr>width = Fin 1000, height = Fin 500\<rparr> (event_at 0 500 250) (Mouse None))) = Fin 0 \<and>
   docX (snd (docMove (scripted no_calls) \<lparr>width = Fin 1000, height = Fin 500\<rparr> (event_at 0 1000 500) (Mouse None))) = Fin 1 \<and>
   docY (snd (docMove (scripted no_calls) \<lparr>width = Fin 1000, height = Fin 500\<rparr> (event_at 0 1000 500) (Mouse None))) = Fin 1 \<and>
   docX (snd (docMove (scripted no_calls) \<lparr>width = Fin 1000, height = Fin 500\<rparr> (event_at 0 2000 (- 250)) (Mouse None))) = Fin 3 \<and>
   docY (snd (docMove (scripted no_calls) \<lparr>width = Fin 1000, height = Fin 500\<rparr> (event_at 0 2000 (- 250)) (Mouse None))) = Fin (- 2) \<and>
   docX (snd (docMove (scripted no_calls) \<lparr>width = Fin 3, height = Fin 0\<rparr> (event_at 0 1 5) (Mouse None))) =
     Fin (- 3002399751580331 / 9007199254740992) \<and>
   docY (snd (docMove (scripted no_calls) \<lparr>width = Fin 3, height = Fin 0\<rparr> (event_at 0 1 5) (Mouse None))) = PInf \<and>
   docX (snd (docMove (scripted no_calls) \<lparr>width = Fin 1, height = Fin 1\<rparr> (event_at 0 (2 ^ 1023) 0) (Mouse None))) = PInf \<and>
   invoked (snd (docMove silent \<lparr>width = Fin 1000, height = Fin 500\<rparr> (event_at 0 500 250)
      (snd (on ''move'' (Fn 7) (Mouse None))))) = [(7, Ev (event_at 0 500 250))]"
proof -
  have pos: "docX (snd (docMove (scripted no_calls) \<lparr>width = Fin w, height = Fin h\<rparr> (event_at 0 x y) (Mouse None))) =
               normalized (Fin x) (Fin w) \<and>
             docY (snd (docMove (scripted no_calls) \<lparr>width = Fin w, height = Fin h\<rparr> (event_at 0 x y) (Mouse None))) =
               normalized (Fin y) (Fin h)"
    for w h x y
    using docMove_normalized_position
            [of silent "\<lparr>width = Fin w, height = Fin h\<rparr>" "event_at 0 x y" "Mouse None" no_calls]
    by (simp add: event_at_def normalized_def)
  have d: "invoked (snd (docMove silent \<lparr>width = Fin 1000, height = Fin 500\<rparr> (event_at 0 500 250)
      (snd (on ''move'' (Fn 7) (Mouse None))))) = [(7, Ev (event_at 0 500 250))]"
    by (simp add: docMove_def eval_defs silent_def)
  have ov: "docX (snd (docMove (scripted no_calls) \<lparr>width = Fin 1, height = Fin 1\<rparr> (event_at 0 (2 ^ 1023) 0) (Mouse None))) = PInf"
    using pos [of 1 1 "2 ^ 1023" 0] by (simp only: normalized_overflow)
  from pos [of 1000 500 500 250] pos [of 1000 500 1000 500] pos [of 1000 500 2000 "- 250"]
    pos [of 3 0 1 5] d ov
  show ?thesis
    by (simp del: power_numeral add: normalized_examples normalized_third normalized_zero_width)
qed

subsection \<open>C7: the set of pressed buttons\<close>

text \<open>
  Claim C7: after any finite sequence of button-down and button-up notifications, replayed
  from the state the constructor builds, the set of buttons holds exactly the codes whose
  most recent notification in the sequence is a button-down. This holds whatever the
  callbacks do and whether or not a handler throws.
\<close>

theorem pressedButtons_after_replay:
  "buttons (replay beh ns (Mouse tgt)) = num_of_int ` held ns"
proof (induction ns rule: rev_induct)
  case Nil
  show ?case by (simp add: Mouse_def held_def)
next
  case (snoc n ns)
  have q: "quiet (replay beh ns (Mouse tgt))" by (intro quiet_replay quiet_Mouse)
  show ?case
  proof (cases n)
    case (ButtonDown e)
    then show ?thesis
      by (simp add: replay_append docDown_quiet [OF q] snoc.IH held_down)
  next
    case (ButtonUp e)
    have "num_of_int ` (held ns - {button e}) = num_of_int ` held ns - {num_of_int (button e)}"
      using inj_num_of_int by (auto simp: inj_def)
    with ButtonUp show ?thesis
      by (simp add: replay_append docUp_quiet [OF q] snoc.IH held_up)
  qed
qed

theorem pressedButtons_after_replay_witness:
  "buttons (replay silent
      [ButtonDown (event_at 0 10 10), ButtonDown (event_at 5 10 10), ButtonUp (event_at 0 10 10),
       ButtonDown (event_at 2 10 10), ButtonUp (event_at 1 10 10)]
      (Mouse None)) = {num_of_int 5, num_of_int 2}"
proof -
  have "held [ButtonDown (event_at 0 10 10), ButtonDown (event_at 5 10 10), ButtonUp (event_at 0 10 10),
       ButtonDown (event_at 2 10 10), ButtonUp (event_at 1 10 10)] = {5, 2}"
    by (auto simp: in_held most_recent_def event_at_def split: if_splits)
  with pressedButtons_after_replay [of silent "[ButtonDown (event_at 0 10 10), ButtonDown (event_at 5 10 10), ButtonUp (event_at 0 10 10),
       ButtonDown (event_at 2 10 10), ButtonUp (event_at 1 10 10)]" None]
  show ?thesis by simp
qed

subsection \<open>C8: unsubscription\<close>

text \<open>
  Claim C8 says that \<^verbatim>\<open>off\<close> never throws, that with \<^verbatim>\<open>"all"\<close> it succeeds exactly for
  the seventeen event names, and that it fails with a diagnostic for every other name.
  The name \<^verbatim>\<open>toString\<close> is none of the seventeen, yet the test \<^verbatim>\<open>event in self.events\<close> is
  true of it: removing a callback from it throws a \<open>TypeError\<close>, and \<^verbatim>\<open>"all"\<close> returns
  \<open>true\<close> and gives the object a list of that name. A name such as \<^verbatim>\<open>wheel\<close>, which is
  neither an event name nor inherited, is refused with the diagnostic as the claim says.
\<close>

theorem off_inherited_name:
  "''toString'' \<notin> set event_names \<and>
   off ''toString'' (Fn 0) (Mouse tgt) = (Inl TypeError, Mouse tgt) \<and>
   fst (off ''toString'' (Str ''all'') (Mouse tgt)) = Inr True \<and>
   events (snd (off ''toString'' (Str ''all'') (Mouse tgt))) ''toString'' = Some 17 \<and>
   off ''wheel'' (Fn 0) (Mouse tgt) =
     (Inr False, warn ''MouseError: Event not found!'' (Mouse tgt)) \<and>
   off ''wheel'' (Str ''all'') (Mouse tgt) =
     (Inr False, warn ''MouseError: Event not found!'' (Mouse tgt))"
  by (simp add: eval_defs event_names_def)

subsection \<open>C9: the button table\<close>

text \<open>
  Claim C9: \<^verbatim>\<open>codeOf(nameOf(c))\<close> is \<open>c\<close> for each code from 0 to 4; for every string whose
  lower-case form is a button name, \<^verbatim>\<open>nameOf(codeOf(s))\<close> is that name, which is \<open>s\<close>
  itself when \<open>s\<close> is a button name; and the table maps left, middle, right, back and next
  to 0, 1, 2, 3 and 4.
\<close>

theorem button_table_round_trip:
  "(c \<in> {0, 1, 2, 3, 4} \<longrightarrow> codeOf (opt_str (nameOf (num_of_int c))) = Inr (num_of_int c)) \<and>
   (lower_string s \<in> set (map fst buttonCodes) \<longrightarrow>
      map_sum id nameOf (codeOf (Str s)) = Inr (Some (lower_string s))) \<and>
   (s \<in> set (map fst buttonCodes) \<longrightarrow> map_sum id nameOf (codeOf (Str s)) = Inr (Some s)) \<and>
   map (\<lambda>n. codeOf (Str n)) [''left'', ''middle'', ''right'', ''back'', ''next''] =
     map (\<lambda>c. Inr (num_of_int c)) [0, 1, 2, 3, 4]"
proof (intro conjI impI)
  assume "c \<in> {0, 1, 2, 3, 4}"
  then consider "c = 0" | "c = 1" | "c = 2" | "c = 3" | "c = 4" by auto
  then show "codeOf (opt_str (nameOf (num_of_int c))) = Inr (num_of_int c)"
    by cases
      (simp_all add: codeOf_def obj_lookup_def opt_str_def nameOf_def buttonCodes_def obj_get_def
        strict_eq_def num_of_int_def lower_string_def lower_char_def)
next
  assume "lower_string s \<in> set (map fst buttonCodes)"
  then show "map_sum id nameOf (codeOf (Str s)) = Inr (Some (lower_string s))"
    by (simp add: codeOf_def obj_lookup_def lower_string_is_name)
next
  assume s: "s \<in> set (map fst buttonCodes)"
  then have "lower_string s = s"
    by (auto simp: buttonCodes_def lower_string_def lower_char_def)
  with s lower_string_is_name [of s]
  show "map_sum id nameOf (codeOf (Str s)) = Inr (Some s)"
    by (simp add: codeOf_def obj_lookup_def)
next
  show "map (\<lambda>n. codeOf (Str n)) [''left'', ''middle'', ''right'', ''back'', ''next''] =
     map (\<lambda>c. Inr (num_of_int c)) [0, 1, 2, 3, 4]"
    by (simp add: codeOf_def obj_lookup_def buttonCodes_def obj_get_def lower_string_def
          lower_char_def)
qed

theorem button_table_round_trip_witness:
  "codeOf (opt_str (nameOf (num_of_int 3))) = Inr (num_of_int 3) \<and>
   map_sum id nameOf (codeOf (Str ''MiDdLe'')) = Inr (Some ''middle'') \<and>
   map_sum id nameOf (codeOf (Str ''next'')) = Inr (Some ''next'')"
  using button_table_round_trip [of 3 "''MiDdLe''"] button_table_round_trip [of 3 "''next''"]
  by (simp add: lower_string_def lower_char_def buttonCodes_def)

subsection \<open>C10: arguments that are not button names\<close>




end
